theory Spec2Isabelle
  imports Main
begin

section \<open>The AMQP broker of spectacles.js\<close>

text \<open>
  The class \<^verbatim>\<open>Amqp\<close> of \<^verbatim>\<open>packages/brokers/src/Amqp.ts\<close> is embedded as a record of its
  fields and one HOL function per method. Whatever a method does to the outside (a call on
  the amqplib channel or connection, a notification emitted, a timer) is appended to a trace
  held in the state, in the order the code performs it. What the outside answers (the result
  of an awaited amqplib call, the identifier \<^verbatim>\<open>ulid()\<close> returns) is an argument of the
  function. A method returns its outcome together with the state it leaves behind, also when
  it throws: JavaScript does not undo the writes made before an exception.
\<close>

subsection \<open>Values\<close>

type_synonym bytes = string

text \<open>An option object the broker hands through without reading it, as name and value pairs.\<close>
type_synonym props = "(string \<times> string) list"

text \<open>
  A thrown or emitted value: an error with its text, or one that also carries a numeric
  code, as the errors amqplib closes a connection with.
\<close>
datatype exn = Error string | CodedError string nat

text \<open>
  A value found in an object under a property name: a string, or the function or object
  the name stands for in \<^verbatim>\<open>Object.prototype\<close>.
\<close>
datatype jsval = Str string | Inherited string

text \<open>A JavaScript number, as far as the broker meets one: a count of milliseconds, or NaN.\<close>
datatype number = Number int | NaN

text \<open>
  How a method ends. A plain method returns or throws; an \<^verbatim>\<open>async\<close> method hands back a
  promise, which is resolved or rejected: an exception raised in its body never reaches the
  caller as a throw.
\<close>
datatype 'a outcome = Threw exn | Returned 'a | Rejected exn | Resolved 'a

text \<open>\<^verbatim>\<open>AmqpOptions\<close>; every field is optional.\<close>
record amqp_options =
  reconnectTimeout :: "number option"
  consume :: "props option"
  assert_options :: "props option"

text \<open>\<^verbatim>\<open>expiration?: string | number\<close>\<close>
datatype expiration = ExpString string | ExpNumber number

text \<open>
  \<^verbatim>\<open>amqp.Options.Publish\<close>, and the properties of a delivered message, which have the same
  fields: the three the broker reads or writes, and the rest.
\<close>
record publish_options =
  replyTo :: "string option"
  correlationId :: "string option"
  expiration :: "expiration option"
  rest :: props

definition empty_options :: publish_options where
  "empty_options = \<lparr>replyTo = None, correlationId = None, expiration = None, rest = []\<rparr>"

record message =
  content :: bytes
  properties :: publish_options

type_synonym chan = nat
type_synonym conn = nat
type_synonym conn_options = string

text \<open>The two closures the broker registers as consumers: lines 139 to 141 and 167 to 182.\<close>
datatype handler = ReplyHandler | EventHandler string

text \<open>The two closures registered on a connection, lines 123 to 132, with what they capture.\<close>
datatype conn_handler = CloseHandler string "conn_options option" | ErrorHandler

datatype chan_op =
    AssertQueue string "props option"
  | BindQueue string string string
  | AssertExchange string string
  | Consume string handler "props option"
  | Cancel jsval
  | Publish string string bytes publish_options
  | SendToQueue "string option" bytes publish_options
  | Ack message
  | Nack message "bool option" "bool option"
  | Reject message "bool option"

datatype 't action =
    AmqpConnect string "conn_options option"
  | CreateChannel conn
  | ConnOn conn string conn_handler
  | Chan chan chan_op
  | Emit string "exn option"
  | Sleep "number option"
  | SetTimeoutConnect "number option" string "conn_options option"
  | Settle string 't

subsection \<open>The broker\<close>

text \<open>
  The fields of \<^verbatim>\<open>Amqp\<close>. \<open>consumers\<close> holds the own properties of \<^verbatim>\<open>_consumers\<close>.
  \<open>serialize\<close> and \<open>deserialize\<close> are the pair the base class installs; \<open>responses\<close> is
  the base class's table of pending calls. \<open>listened\<close> holds the names of the events for
  which a listener is registered on the broker, which is an event emitter.
\<close>
record 't amqp =
  channel :: "chan option"
  callback :: "string option"
  group :: string
  subgroup :: "string option"
  options :: amqp_options
  consumers :: "string \<rightharpoonup> string"
  serialize :: "'t \<Rightarrow> bytes"
  deserialize :: "bytes \<Rightarrow> 't"
  responses :: "string \<rightharpoonup> number option"
  listened :: "string set"
  trace :: "'t action list"

definition perform :: "'t amqp \<Rightarrow> 't action \<Rightarrow> 't amqp" where
  "perform b a = b\<lparr>trace := trace b @ [a]\<rparr>"

text \<open>
  \<^verbatim>\<open>this.emit(name, value)\<close> of the event emitter the base class extends, for a name
  other than \<^verbatim>\<open>error\<close>: the emitter calls the listeners of that name, if there are any.
  Listeners are taken to return.
\<close>
definition emit :: "'t amqp \<Rightarrow> string \<Rightarrow> exn option \<Rightarrow> 't amqp" where
  "emit b name v = perform b (Emit name v)"

text \<open>
  What the emitter throws for an \<^verbatim>\<open>error\<close> event nobody listens to: the value, or for a
  value that is no error an error of its own.
\<close>
definition unhandled :: "exn option \<Rightarrow> exn" where
  "unhandled v = (case v of Some e \<Rightarrow> e | None \<Rightarrow> Error ''Unhandled error. (undefined)'')"

text \<open>
  \<^verbatim>\<open>this.emit('error', value)\<close>: with a listener for \<^verbatim>\<open>error\<close> on the broker the
  notification is made; with none the emitter throws.
\<close>
definition emit_error :: "'t amqp \<Rightarrow> exn option \<Rightarrow> exn option \<times> 't amqp" where
  "emit_error b v =
    (if ''error'' \<in> listened b then (None, perform b (Emit ''error'' v))
     else (Some (unhandled v), b))"

text \<open>\<^verbatim>\<open>this.on(name, listener)\<close> of the event emitter.\<close>
definition on_event :: "'t amqp \<Rightarrow> string \<Rightarrow> 't amqp" where
  "on_event b name = b\<lparr>listened := insert name (listened b)\<rparr>"

text \<open>The second argument of the constructor is the subgroup or the options.\<close>
datatype ctor_arg = ArgSubgroup string | ArgOptions amqp_options

definition no_options :: amqp_options where
  "no_options = \<lparr>reconnectTimeout = None, consume = None, assert_options = None\<rparr>"

text \<open>
  The constructor, lines 90 to 102. \<open>ser\<close> and \<open>de\<close> stand for what \<^verbatim>\<open>super(...)\<close> installs.
\<close>
definition new_amqp ::
  "('t \<Rightarrow> bytes) \<Rightarrow> (bytes \<Rightarrow> 't) \<Rightarrow> string option \<Rightarrow> ctor_arg option \<Rightarrow> amqp_options option
    \<Rightarrow> 't amqp" where
  "new_amqp ser de g sub opts =
    \<lparr>channel = None, callback = None,
     group = (case g of None \<Rightarrow> ''default'' | Some g' \<Rightarrow> g'),
     subgroup = (case sub of Some (ArgSubgroup s) \<Rightarrow> Some s | _ \<Rightarrow> None),
     options = (case sub of
                  Some (ArgOptions o1) \<Rightarrow> o1
                | _ \<Rightarrow> (case opts of None \<Rightarrow> no_options | Some o2 \<Rightarrow> o2)),
     consumers = Map.empty, serialize = ser, deserialize = de,
     responses = Map.empty, listened = {}, trace = []\<rparr>"

text \<open>The accessor \<^verbatim>\<open>_channel\<close>, lines 232 to 235.\<close>
definition amqp_channel :: "'t amqp \<Rightarrow> exn + chan" where
  "amqp_channel b =
    (case channel b of None \<Rightarrow> Inl (Error ''no available amqp channel'') | Some c \<Rightarrow> Inr c)"

text \<open>
  An optional string used as a condition: \<^verbatim>\<open>undefined\<close> and the empty string count as
  false, every other string as true.
\<close>
definition truthy :: "string option \<Rightarrow> bool" where
  "truthy s = (case s of None \<Rightarrow> False | Some x \<Rightarrow> x \<noteq> [])"

text \<open>
  What \<^verbatim>\<open>await\<close> makes of an outcome inside an \<^verbatim>\<open>async\<close> body: the value, or the
  exception that rejects the body's own promise.
\<close>
definition awaited :: "'a outcome \<Rightarrow> exn + 'a" where
  "awaited p =
    (case p of Threw e \<Rightarrow> Inl e | Rejected e \<Rightarrow> Inl e | Returned v \<Rightarrow> Inr v | Resolved v \<Rightarrow> Inr v)"

text \<open>
  The template of line 148: \<^verbatim>\<open>this.subgroup ? `${this.subgroup}:` : ''\<close> puts the
  subgroup and a colon in front of the event when the subgroup is a non-empty string.
\<close>
definition queue_name :: "'t amqp \<Rightarrow> string \<Rightarrow> string" where
  "queue_name b event =
    group b @ '':'' @
      ((case subgroup b of
          None \<Rightarrow> []
        | Some sg \<Rightarrow> if truthy (Some sg) then sg @ '':'' else []) @ event)"

text \<open>
  \<^verbatim>\<open>createQueue\<close>, lines 147 to 152. \<open>r_assert\<close> and \<open>r_bind\<close> are the errors the two
  awaited calls are rejected with, if any.
\<close>
definition createQueue ::
  "'t amqp \<Rightarrow> string \<Rightarrow> exn option \<Rightarrow> exn option \<Rightarrow> string outcome \<times> 't amqp" where
  "createQueue b event r_assert r_bind =
    (let queue = queue_name b event in
     case amqp_channel b of
       Inl e \<Rightarrow> (Rejected e, b)
     | Inr ch \<Rightarrow>
        (let b1 = perform b (Chan ch (AssertQueue queue (assert_options (options b)))) in
         case r_assert of
           Some e \<Rightarrow> (Rejected e, b1)
         | None \<Rightarrow>
            (case amqp_channel b1 of
               Inl e \<Rightarrow> (Rejected e, b1)
             | Inr ch' \<Rightarrow>
                (let b2 = perform b1 (Chan ch' (BindQueue queue (group b1) event)) in
                 case r_bind of
                   Some e \<Rightarrow> (Rejected e, b2)
                 | None \<Rightarrow> (Resolved queue, b2)))))"

subsection \<open>Callbacks that run side by side\<close>

text \<open>
  \<^verbatim>\<open>_subscribe\<close> and \<^verbatim>\<open>_unsubscribe\<close> start one \<^verbatim>\<open>async\<close> callback for every event of
  the array and hand the promises to \<^verbatim>\<open>Promise.all\<close>. A callback runs until its first
  \<^verbatim>\<open>await\<close> before the next one starts, and goes on when the transport has answered the
  call it waits for. The transport answers the calls made on a channel in the order they
  were made, so the callbacks go on in turns, each turn in the order of the array. A
  callback is where it waits, or it has settled.
\<close>
datatype ('w, 'a) stage = Waiting 'w | Settled "'a outcome"

text \<open>An event of the array with the answers the transport will give, and where it stands.\<close>
type_synonym ('r, 'w, 'a) task = "string \<times> 'r \<times> ('w, 'a) stage"

definition rejection :: "('w, 'a) stage \<Rightarrow> exn option" where
  "rejection st =
    (case st of
       Waiting w \<Rightarrow> None
     | Settled p \<Rightarrow> (case awaited p of Inl e \<Rightarrow> Some e | Inr v \<Rightarrow> None))"

text \<open>One turn: \<open>step\<close> for every element in order.\<close>
fun run_each ::
  "('t amqp \<Rightarrow> 'x \<Rightarrow> ('r, 'w, 'a) task \<times> 't amqp) \<Rightarrow> 't amqp \<Rightarrow> 'x list
    \<Rightarrow> ('r, 'w, 'a) task list \<times> 't amqp" where
  "run_each step b [] = ([], b)"
| "run_each step b (x # xs) =
    (case step b x of
       (t, b1) \<Rightarrow> (case run_each step b1 xs of (ts, b2) \<Rightarrow> (t # ts, b2)))"

text \<open>The first rejection among callbacks, in the order given.\<close>
fun first_rejection :: "('r, 'w, 'a) task list \<Rightarrow> exn option" where
  "first_rejection [] = None"
| "first_rejection ((event, r, st) # ts) =
    (case rejection st of Some e \<Rightarrow> Some e | None \<Rightarrow> first_rejection ts)"

text \<open>The values of the callbacks that resolved, in the order of the array.\<close>
fun resolved_values :: "('r, 'w, 'a) task list \<Rightarrow> 'a list" where
  "resolved_values [] = []"
| "resolved_values ((event, r, st) # ts) =
    (case st of
       Waiting w \<Rightarrow> resolved_values ts
     | Settled p \<Rightarrow>
        (case awaited p of Inl e \<Rightarrow> resolved_values ts | Inr v \<Rightarrow> v # resolved_values ts))"

text \<open>
  The promise of \<^verbatim>\<open>Promise.all\<close> once every callback has settled, from the callbacks as
  they stood after each turn: it is rejected with the first rejection in time, that is the
  first one of the earliest turn that has one, and else resolved with the values in the
  order of the array.
\<close>
definition promise_all ::
  "('r, 'w, 'a) task list list \<Rightarrow> ('r, 'w, 'a) task list \<Rightarrow> 'a list outcome" where
  "promise_all turns ts =
    (case first_rejection (concat turns) of
       Some e \<Rightarrow> Rejected e
     | None \<Rightarrow> Resolved (resolved_values ts))"

subsection \<open>The consumer dictionary\<close>

text \<open>
  \<^verbatim>\<open>_consumers\<close> is a plain object, \<^verbatim>\<open>{}\<close> in line 101: the map holds its own
  properties, and a name it does not hold is looked up in \<^verbatim>\<open>Object.prototype\<close>, whose
  property names these are.
\<close>
definition object_prototype :: "string list" where
  "object_prototype =
    [''constructor'', ''__defineGetter__'', ''__defineSetter__'', ''hasOwnProperty'',
     ''__lookupGetter__'', ''__lookupSetter__'', ''isPrototypeOf'', ''propertyIsEnumerable'',
     ''toString'', ''valueOf'', ''__proto__'', ''toLocaleString'']"

text \<open>\<^verbatim>\<open>obj[k]\<close>: the own property, else the inherited one, else \<^verbatim>\<open>undefined\<close>.\<close>
definition js_get :: "(string \<rightharpoonup> string) \<Rightarrow> string \<Rightarrow> jsval option" where
  "js_get obj k =
    (case obj k of
       Some v \<Rightarrow> Some (Str v)
     | None \<Rightarrow> if k \<in> set object_prototype then Some (Inherited k) else None)"

text \<open>
  \<^verbatim>\<open>obj[k] = v\<close> for a string \<open>v\<close>: an own property, but for the name \<^verbatim>\<open>__proto__\<close>, whose
  inherited setter takes the assignment and ignores a value that is not an object.
\<close>
definition js_set :: "(string \<rightharpoonup> string) \<Rightarrow> string \<Rightarrow> string \<Rightarrow> (string \<rightharpoonup> string)" where
  "js_set obj k v = (if k = ''__proto__'' then obj else obj(k \<mapsto> v))"

text \<open>\<^verbatim>\<open>delete obj[k]\<close> removes an own property.\<close>
definition js_delete :: "(string \<rightharpoonup> string) \<Rightarrow> string \<Rightarrow> (string \<rightharpoonup> string)" where
  "js_delete obj k = obj(k := None)"

text \<open>
  A looked-up value used as a condition: \<^verbatim>\<open>undefined\<close> and the empty string count as
  false; an inherited property is a function or an object and counts as true.
\<close>
definition js_truthy :: "jsval option \<Rightarrow> bool" where
  "js_truthy v =
    (case v of None \<Rightarrow> False | Some (Str s) \<Rightarrow> s \<noteq> [] | Some (Inherited k) \<Rightarrow> True)"

subsection \<open>Subscribing\<close>

text \<open>What the outside answers to the three awaited calls made for one event.\<close>
record replies =
  assert_reply :: "exn option"
  bind_reply :: "exn option"
  consume_reply :: "exn + string"

text \<open>
  The three places where the callback of \<^verbatim>\<open>_subscribe\<close> waits, each with the local
  \<^verbatim>\<open>queue\<close>: \<^verbatim>\<open>assertQueue\<close> in line 149, \<^verbatim>\<open>bindQueue\<close> in line 150, \<^verbatim>\<open>consume\<close> in
  line 167.
\<close>
datatype subscribe_wait = ForAssert string | ForBind string | ForConsume string

type_synonym subscribe_task = "(replies, subscribe_wait, string) task"

text \<open>
  The callback up to its first \<^verbatim>\<open>await\<close>: line 164 enters \<^verbatim>\<open>createQueue\<close>, which names
  the queue, reads the channel and calls \<^verbatim>\<open>assertQueue\<close>.
\<close>
definition subscribe_start :: "'t amqp \<Rightarrow> string \<times> replies \<Rightarrow> subscribe_task \<times> 't amqp" where
  "subscribe_start b er =
    (case er of
       (event, r) \<Rightarrow>
        (let queue = queue_name b event in
         case amqp_channel b of
           Inl e \<Rightarrow> ((event, r, Settled (Rejected e)), b)
         | Inr ch \<Rightarrow>
            ((event, r, Waiting (ForAssert queue)),
             perform b (Chan ch (AssertQueue queue (assert_options (options b)))))))"

text \<open>
  The callback from the answer it waited for to its next \<^verbatim>\<open>await\<close>, or to its end in
  lines 184 and 185. A callback that has settled stays as it is.
\<close>
definition subscribe_resume :: "'t amqp \<Rightarrow> subscribe_task \<Rightarrow> subscribe_task \<times> 't amqp" where
  "subscribe_resume b t =
    (case t of
       (event, r, Settled p) \<Rightarrow> (t, b)
     | (event, r, Waiting (ForAssert queue)) \<Rightarrow>
        (case assert_reply r of
           Some e \<Rightarrow> ((event, r, Settled (Rejected e)), b)
         | None \<Rightarrow>
            (case amqp_channel b of
               Inl e \<Rightarrow> ((event, r, Settled (Rejected e)), b)
             | Inr ch \<Rightarrow>
                ((event, r, Waiting (ForBind queue)),
                 perform b (Chan ch (BindQueue queue (group b) event)))))
     | (event, r, Waiting (ForBind queue)) \<Rightarrow>
        (case bind_reply r of
           Some e \<Rightarrow> ((event, r, Settled (Rejected e)), b)
         | None \<Rightarrow>
            (case amqp_channel b of
               Inl e \<Rightarrow> ((event, r, Settled (Rejected e)), b)
             | Inr ch \<Rightarrow>
                ((event, r, Waiting (ForConsume queue)),
                 perform b
                   (Chan ch (Consume queue (EventHandler event) (consume (options b)))))))
     | (event, r, Waiting (ForConsume queue)) \<Rightarrow>
        (case consume_reply r of
           Inl e \<Rightarrow> ((event, r, Settled (Rejected e)), b)
         | Inr tag \<Rightarrow>
            ((event, r, Settled (Resolved tag)),
             b\<lparr>consumers := js_set (consumers b) event tag\<rparr>)))"

text \<open>
  \<^verbatim>\<open>_subscribe\<close>, lines 162 to 187: the callbacks start, and go on in three turns, after
  which each of them has settled.
\<close>
definition amqp_subscribe ::
  "'t amqp \<Rightarrow> (string \<times> replies) list \<Rightarrow> string list outcome \<times> 't amqp" where
  "amqp_subscribe b evs =
    (case run_each subscribe_start b evs of
       (t1, b1) \<Rightarrow>
        (case run_each subscribe_resume b1 t1 of
           (t2, b2) \<Rightarrow>
            (case run_each subscribe_resume b2 t2 of
               (t3, b3) \<Rightarrow>
                (case run_each subscribe_resume b3 t3 of
                   (t4, b4) \<Rightarrow> (promise_all [t1, t2, t3, t4] t4, b4)))))"

subsection \<open>Unsubscribing\<close>

type_synonym unsubscribe_task = "(exn option, jsval, bool) task"

text \<open>
  The callback of \<^verbatim>\<open>_unsubscribe\<close> up to its \<^verbatim>\<open>await\<close>, lines 196 and 197: the test of
  the entry, and for an entry that counts as true the channel and the call of \<^verbatim>\<open>cancel\<close>
  with the entry. \<open>r\<close> is the error \<^verbatim>\<open>cancel\<close> is rejected with, if any.
\<close>
definition unsubscribe_start ::
  "'t amqp \<Rightarrow> string \<times> exn option \<Rightarrow> unsubscribe_task \<times> 't amqp" where
  "unsubscribe_start b er =
    (case er of
       (event, r) \<Rightarrow>
        (case js_get (consumers b) event of
           None \<Rightarrow> ((event, r, Settled (Resolved False)), b)
         | Some v \<Rightarrow>
            if js_truthy (Some v) then
              (case amqp_channel b of
                 Inl e \<Rightarrow> ((event, r, Settled (Rejected e)), b)
               | Inr ch \<Rightarrow> ((event, r, Waiting v), perform b (Chan ch (Cancel v))))
            else ((event, r, Settled (Resolved False)), b)))"

text \<open>The callback after the answer to \<^verbatim>\<open>cancel\<close>, lines 198 and 199.\<close>
definition unsubscribe_resume ::
  "'t amqp \<Rightarrow> unsubscribe_task \<Rightarrow> unsubscribe_task \<times> 't amqp" where
  "unsubscribe_resume b t =
    (case t of
       (event, r, Settled p) \<Rightarrow> (t, b)
     | (event, r, Waiting v) \<Rightarrow>
        (case r of
           Some e \<Rightarrow> ((event, r, Settled (Rejected e)), b)
         | None \<Rightarrow>
            ((event, r, Settled (Resolved True)),
             b\<lparr>consumers := js_delete (consumers b) event\<rparr>)))"

text \<open>\<^verbatim>\<open>_unsubscribe\<close>, lines 194 to 204.\<close>
definition amqp_unsubscribe ::
  "'t amqp \<Rightarrow> (string \<times> exn option) list \<Rightarrow> bool list outcome \<times> 't amqp" where
  "amqp_unsubscribe b evs =
    (case run_each unsubscribe_start b evs of
       (t1, b1) \<Rightarrow>
        (case run_each unsubscribe_resume b1 t1 of
           (t2, b2) \<Rightarrow> (promise_all [t1, t2] t2, b2)))"

subsection \<open>Publishing and calling\<close>

text \<open>\<^verbatim>\<open>publish\<close>, lines 212 to 214; an omitted \<open>opts\<close> is the default \<^verbatim>\<open>{}\<close>.\<close>
definition publish ::
  "'t amqp \<Rightarrow> string \<Rightarrow> 't \<Rightarrow> publish_options option \<Rightarrow> unit outcome \<times> 't amqp" where
  "publish b event data opts =
    (case amqp_channel b of
       Inl e \<Rightarrow> (Threw e, b)
     | Inr ch \<Rightarrow>
        (Returned (),
         perform b (Chan ch (Publish (group b) event (serialize b data)
           (case opts of None \<Rightarrow> empty_options | Some o1 \<Rightarrow> o1)))))"

text \<open>
  Modelled from the spec: \<^verbatim>\<open>_awaitResponse\<close> of the base class, which is not among the
  sources. The spec's correlation table maps a correlation identifier to a pending waiter
  with its time window; no window means the waiter waits indefinitely.
\<close>
definition awaitResponse :: "'t amqp \<Rightarrow> string \<Rightarrow> number option \<Rightarrow> 't amqp" where
  "awaitResponse b correlation window =
    b\<lparr>responses := (responses b)(correlation \<mapsto> window)\<rparr>"

text \<open>
  Modelled from the spec: \<^verbatim>\<open>_handleReply\<close> of the base class, which is not among the
  sources. A reply whose identifier matches an outstanding entry resolves that entry with
  the decoded payload and removes it; a reply with no matching entry is dropped silently.
\<close>
definition handleReply :: "'t amqp \<Rightarrow> string option \<Rightarrow> bytes \<Rightarrow> 't amqp" where
  "handleReply b correlation data =
    (case correlation of
       None \<Rightarrow> b
     | Some c \<Rightarrow>
        (case responses b c of
           None \<Rightarrow> b
         | Some w \<Rightarrow> perform (b\<lparr>responses := (responses b)(c := None)\<rparr>)
                      (Settle c (deserialize b data))))"

text \<open>The objects the callers hold: an options object is passed to \<^verbatim>\<open>call\<close> by reference.\<close>
type_synonym ref = nat
type_synonym heap = "ref \<Rightarrow> publish_options"

text \<open>The second argument of \<^verbatim>\<open>_awaitResponse\<close> in line 223.\<close>
definition expiration_window :: "(string \<Rightarrow> number) \<Rightarrow> publish_options \<Rightarrow> number option" where
  "expiration_window parseInt opts =
    (case expiration opts of
       None \<Rightarrow> None
     | Some (ExpString s) \<Rightarrow> Some (parseInt s)
     | Some (ExpNumber n) \<Rightarrow> Some n)"

text \<open>
  \<^verbatim>\<open>Object.assign(options, { replyTo: this.callback, correlationId: correlation })\<close> of
  lines 218 to 221: the two fields are written, an undefined callback included, and every
  other field of the target stays.
\<close>
definition object_assign :: "publish_options \<Rightarrow> string option \<Rightarrow> string \<Rightarrow> publish_options" where
  "object_assign opts cb correlation = opts\<lparr>replyTo := cb, correlationId := Some correlation\<rparr>"

text \<open>
  \<^verbatim>\<open>call\<close>, lines 216 to 224. \<open>correlation\<close> is what \<^verbatim>\<open>ulid()\<close> returns and \<open>parseInt\<close> is
  JavaScript's \<^verbatim>\<open>parseInt(s, 10)\<close>. \<open>optref\<close> is the caller's options object, or nothing, and
  then a new \<^verbatim>\<open>{}\<close> that nobody else holds. \<^verbatim>\<open>Object.assign\<close> writes into that object and
  returns it, before \<^verbatim>\<open>publish\<close> runs. The promise returned is named by its correlation
  identifier.
\<close>
definition call ::
  "'t amqp \<Rightarrow> string \<Rightarrow> 't \<Rightarrow> ref option \<Rightarrow> string \<Rightarrow> (string \<Rightarrow> number) \<Rightarrow> heap
    \<Rightarrow> string outcome \<times> 't amqp \<times> heap" where
  "call b method data optref correlation parseInt h =
    (let opts = object_assign (case optref of None \<Rightarrow> empty_options | Some r \<Rightarrow> h r)
                  (callback b) correlation;
         h1 = (case optref of None \<Rightarrow> h | Some r \<Rightarrow> h(r := opts))
     in case publish b method data (Some opts) of
          (p, b1) \<Rightarrow>
           (case awaited p of
              Inl e \<Rightarrow> (Threw e, b1, h1)
            | Inr u \<Rightarrow>
               (Returned correlation,
                awaitResponse b1 correlation (expiration_window parseInt opts), h1)))"

subsection \<open>Consumers\<close>

text \<open>What a listener can do with the fourth argument of \<^verbatim>\<open>_handleMessage\<close>, lines 171 to 176.\<close>
datatype 't response_call =
    Reply 't
  | CallAck
  | CallNack "bool option" "bool option"
  | CallReject "bool option"

definition response_op :: "'t amqp \<Rightarrow> message \<Rightarrow> 't response_call \<Rightarrow> chan_op" where
  "response_op b msg c =
    (case c of
       Reply d \<Rightarrow>
        SendToQueue (replyTo (properties msg)) (serialize b d)
          (empty_options\<lparr>correlationId := correlationId (properties msg)\<rparr>)
     | CallAck \<Rightarrow> Ack msg
     | CallNack allUpTo requeue \<Rightarrow> Nack msg allUpTo requeue
     | CallReject requeue \<Rightarrow> Reject msg requeue)"

text \<open>
  The listeners' calls in order; each goes through the accessor \<^verbatim>\<open>_channel\<close>, whose
  exception ends the dispatch.
\<close>
fun respond :: "'t amqp \<Rightarrow> message \<Rightarrow> 't response_call list \<Rightarrow> exn option \<times> 't amqp" where
  "respond b msg [] = (None, b)"
| "respond b msg (c # cs) =
    (case amqp_channel b of
       Inl e \<Rightarrow> (Some e, b)
     | Inr ch \<Rightarrow> respond (perform b (Chan ch (response_op b msg c))) msg cs)"

text \<open>
  \<^verbatim>\<open>_handleMessage\<close> belongs to the base class, which is not among the sources: the
  dispatch is the parameter \<open>hm\<close>, which says for an event and a payload what the listeners
  call before they return, and the value the dispatch throws, if any.
\<close>
type_synonym 't dispatch = "string \<Rightarrow> bytes \<Rightarrow> 't response_call list \<times> exn option"

definition handleMessage ::
  "'t dispatch \<Rightarrow> 't amqp \<Rightarrow> string \<Rightarrow> message \<Rightarrow> exn option \<times> 't amqp" where
  "handleMessage hm b event msg =
    (case hm event (content msg) of
       (calls, thrown) \<Rightarrow>
        (case respond b msg calls of
           (Some e, b1) \<Rightarrow> (Some e, b1)
         | (None, b1) \<Rightarrow> (thrown, b1)))"

text \<open>The consumer of an event's queue, lines 167 to 182; \<open>None\<close> is the \<^verbatim>\<open>null\<close> message.\<close>
definition on_message ::
  "'t dispatch \<Rightarrow> 't amqp \<Rightarrow> string \<Rightarrow> message option \<Rightarrow> unit outcome \<times> 't amqp" where
  "on_message hm b event m =
    (case m of
       None \<Rightarrow> (Resolved (), b)
     | Some msg \<Rightarrow>
        (case handleMessage hm b event msg of
           (None, b1) \<Rightarrow> (Resolved (), b1)
         | (Some e, b1) \<Rightarrow>
            (case amqp_channel b1 of
               Inl e' \<Rightarrow> (Rejected e', b1)
             | Inr ch \<Rightarrow>
                (case emit_error (perform b1 (Chan ch (Reject msg (Some False)))) (Some e) of
                   (Some x, b2) \<Rightarrow> (Rejected x, b2)
                 | (None, b2) \<Rightarrow> (Resolved (), b2)))))"

text \<open>The consumer of the callback queue, lines 139 to 141.\<close>
definition on_reply :: "'t amqp \<Rightarrow> message option \<Rightarrow> unit outcome \<times> 't amqp" where
  "on_reply b m =
    (case m of
       None \<Rightarrow> (Returned (), b)
     | Some msg \<Rightarrow> (Returned (), handleReply b (correlationId (properties msg)) (content msg)))"

text \<open>What a registered consumer does with a delivery.\<close>
definition run_handler ::
  "'t dispatch \<Rightarrow> handler \<Rightarrow> 't amqp \<Rightarrow> message option \<Rightarrow> unit outcome \<times> 't amqp" where
  "run_handler hm k b m =
    (case k of ReplyHandler \<Rightarrow> on_reply b m | EventHandler event \<Rightarrow> on_message hm b event m)"


subsection \<open>Connecting\<close>

text \<open>
  The loop of lines 114 to 133. \<open>attempts\<close> holds the answers to the calls of
  \<^verbatim>\<open>amqp.connect\<close> so far, an error or a connection each. The loop has no exit but a
  connection: when the answers run out it is still waiting for the next one, which is the
  result \<open>None\<close>.
\<close>
fun connect_loop ::
  "'t amqp \<Rightarrow> string \<Rightarrow> conn_options option \<Rightarrow> (exn + conn) list \<Rightarrow> conn option \<times> 't amqp"
  where
  "connect_loop b url copts [] = (None, perform b (AmqpConnect (''amqp://'' @ url) copts))"
| "connect_loop b url copts (Inl e # attempts) =
    connect_loop
      (perform (emit (perform b (AmqpConnect (''amqp://'' @ url) copts)) ''close'' (Some e))
         (Sleep (reconnectTimeout (options b))))
      url copts attempts"
| "connect_loop b url copts (Inr c # attempts) =
    (Some c,
     perform
       (perform (perform b (AmqpConnect (''amqp://'' @ url) copts))
          (ConnOn c ''close'' (CloseHandler url copts)))
       (ConnOn c ''error'' ErrorHandler))"

datatype target = Url string | Connection conn

text \<open>What the outside answers to the awaited calls of lines 135 to 143.\<close>
record connect_replies =
  createChannel_reply :: "exn + chan"
  assertQueue_reply :: "exn + string"
  assertExchange_reply :: "exn option"

text \<open>
  \<^verbatim>\<open>connect\<close>, lines 110 to 145. The result \<open>None\<close> is a promise that has not settled.
\<close>
definition connect ::
  "'t amqp \<Rightarrow> target \<Rightarrow> conn_options option \<Rightarrow> (exn + conn) list \<Rightarrow> connect_replies
    \<Rightarrow> conn outcome option \<times> 't amqp" where
  "connect b urlOrConn copts attempts r =
    (case (case urlOrConn of
             Connection c \<Rightarrow> (Some c, b)
           | Url url \<Rightarrow> connect_loop b url copts attempts) of
       (None, b1) \<Rightarrow> (None, b1)
     | (Some c, b1) \<Rightarrow>
        (let b2 = perform b1 (CreateChannel c) in
         case createChannel_reply r of
           Inl e \<Rightarrow> (Some (Rejected e), b2)
         | Inr ch \<Rightarrow>
            (let b3 = perform (b2\<lparr>channel := Some ch\<rparr>)
                        (Chan ch (AssertQueue [] (Some [(''exclusive'', ''true'')]))) in
             case assertQueue_reply r of
               Inl e \<Rightarrow> (Some (Rejected e), b3)
             | Inr q \<Rightarrow>
                (let b4 = perform (b3\<lparr>callback := Some q\<rparr>)
                            (Chan ch (Consume q ReplyHandler (Some [(''noAck'', ''true'')])));
                     b5 = perform b4 (Chan ch (AssertExchange (group b4) ''direct''))
                 in case assertExchange_reply r of
                      Some e \<Rightarrow> (Some (Rejected e), b5)
                    | None \<Rightarrow> (Some (Resolved c), b5)))))"

text \<open>
  The listener of the connection's \<^verbatim>\<open>close\<close> event, lines 123 to 128. \<open>isFatalError\<close> is
  amqplib's predicate.
\<close>
definition on_close ::
  "(exn option \<Rightarrow> bool) \<Rightarrow> 't amqp \<Rightarrow> string \<Rightarrow> conn_options option \<Rightarrow> exn option \<Rightarrow> 't amqp"
  where
  "on_close isFatalError b url copts err =
    (if \<not> isFatalError err then
       perform (emit b ''close'' err) (SetTimeoutConnect (reconnectTimeout (options b)) url copts)
     else b)"

text \<open>
  The listener of the connection's \<^verbatim>\<open>error\<close> event, lines 130 to 132, with what it
  throws, if anything.
\<close>
definition on_error :: "'t amqp \<Rightarrow> exn option \<Rightarrow> exn option \<times> 't amqp" where
  "on_error b err = emit_error b err"

text \<open>What a listener registered on the connection does with an event.\<close>
definition run_conn_handler ::
  "(exn option \<Rightarrow> bool) \<Rightarrow> conn_handler \<Rightarrow> 't amqp \<Rightarrow> exn option \<Rightarrow> exn option \<times> 't amqp"
  where
  "run_conn_handler isFatalError k b err =
    (case k of
       CloseHandler url copts \<Rightarrow> (None, on_close isFatalError b url copts err)
     | ErrorHandler \<Rightarrow> on_error b err)"

text \<open>
  The listeners of an event of the connection, called in the order of their registration;
  a listener that throws ends the round.
\<close>
fun run_listeners ::
  "(exn option \<Rightarrow> bool) \<Rightarrow> 't amqp \<Rightarrow> conn_handler list \<Rightarrow> exn option \<Rightarrow> exn option \<times> 't amqp"
  where
  "run_listeners isFatalError b [] err = (None, b)"
| "run_listeners isFatalError b (k # ks) err =
    (case run_conn_handler isFatalError k b err of
       (Some x, b1) \<Rightarrow> (Some x, b1)
     | (None, b1) \<Rightarrow> run_listeners isFatalError b1 ks err)"

subsection \<open>Observations on outcomes and traces\<close>

text \<open>An outcome that is an exception thrown at the caller, not a promise.\<close>
definition is_throw :: "'a outcome \<Rightarrow> bool" where
  "is_throw p = (case p of Threw e \<Rightarrow> True | _ \<Rightarrow> False)"



text \<open>The answers of a transport on which the three calls made for an event succeed.\<close>
definition ok :: "string \<Rightarrow> replies" where
  "ok tag = \<lparr>assert_reply = None, bind_reply = None, consume_reply = Inr tag\<rparr>"











definition after_consume :: "string \<times> replies \<Rightarrow> (subscribe_wait, string) stage" where
  "after_consume er =
    (case assert_reply (snd er) of
       Some e \<Rightarrow> Settled (Rejected e)
     | None \<Rightarrow>
        (case bind_reply (snd er) of
           Some e \<Rightarrow> Settled (Rejected e)
         | None \<Rightarrow>
            (case consume_reply (snd er) of
               Inl e \<Rightarrow> Settled (Rejected e)
             | Inr tag \<Rightarrow> Settled (Resolved tag))))"

text \<open>An event of the array as a callback at a given stage.\<close>
definition at_stage ::
  "(string \<times> replies \<Rightarrow> (subscribe_wait, string) stage) \<Rightarrow> string \<times> replies \<Rightarrow> subscribe_task"
  where
  "at_stage f er = (fst er, snd er, f er)"



text \<open>The listeners the trace registers on a connection for an event of it, in order.\<close>
fun registered :: "conn \<Rightarrow> string \<Rightarrow> 't action list \<Rightarrow> conn_handler list" where
  "registered c name [] = []"
| "registered c name (ConnOn c' name' k # tr) =
    (if c' = c \<and> name' = name then k # registered c name tr else registered c name tr)"
| "registered c name (a # tr) = registered c name tr"

text \<open>What one failed attempt of the loop of \<^verbatim>\<open>connect\<close> does, lines 116 to 119.\<close>
definition retry_ops :: "'t amqp \<Rightarrow> string \<Rightarrow> conn_options option \<Rightarrow> exn \<Rightarrow> 't action list" where
  "retry_ops b url copts e =
    [AmqpConnect (''amqp://'' @ url) copts, Emit ''close'' (Some e),
     Sleep (reconnectTimeout (options b))]"

subsection \<open>Example brokers\<close>

text \<open>\<^verbatim>\<open>new Amqp('g')\<close>, \<^verbatim>\<open>new Amqp('g', 'sg')\<close> and \<^verbatim>\<open>new Amqp('g', '')\<close>, with strings as data.\<close>
definition fresh :: "string amqp" where
  "fresh = new_amqp id id (Some ''g'') None None"

definition fresh_sg :: "string amqp" where
  "fresh_sg = new_amqp id id (Some ''g'') (Some (ArgSubgroup ''sg'')) None"

definition fresh_empty_sg :: "string amqp" where
  "fresh_empty_sg = new_amqp id id (Some ''g'') (Some (ArgSubgroup [])) None"

text \<open>A transport that opens channel 7 and names the callback queue \<^verbatim>\<open>amq.gen-1\<close>.\<close>
definition transport :: connect_replies where
  "transport = \<lparr>createChannel_reply = Inr 7, assertQueue_reply = Inr ''amq.gen-1'',
                 assertExchange_reply = None\<rparr>"

text \<open>The brokers above after \<^verbatim>\<open>connect('localhost')\<close> succeeded at the first attempt.\<close>
definition connected :: "string amqp" where
  "connected = snd (connect fresh (Url ''localhost'') None [Inr 1] transport)"

definition connected_sg :: "string amqp" where
  "connected_sg = snd (connect fresh_sg (Url ''localhost'') None [Inr 1] transport)"

text \<open>\<^verbatim>\<open>new Amqp('g')\<close> with a listener for \<^verbatim>\<open>error\<close>, after the same \<^verbatim>\<open>connect\<close>.\<close>
definition watched :: "string amqp" where
  "watched = snd (connect (on_event fresh ''error'') (Url ''localhost'') None [Inr 1] transport)"

text \<open>\<^verbatim>\<open>new Amqp('g')\<close> after \<^verbatim>\<open>connect(conn)\<close> with the connection 1 another party opened.\<close>
definition adopted :: "string amqp" where
  "adopted = snd (connect fresh (Connection 1) None [] transport)"






text \<open>A broker made with \<^verbatim>\<open>{ reconnectTimeout: 500 }\<close>.\<close>
definition patient :: "string amqp" where
  "patient = new_amqp id id (Some ''g'') None (Some (no_options\<lparr>reconnectTimeout := Some (Number 500)\<rparr>))"

text \<open>
  A predicate in the place of amqplib's \<^verbatim>\<open>isFatalError\<close>, which holds of every close but
  the ones with the codes 320 and 200; and a close of each kind.
\<close>
definition fatal :: "exn option \<Rightarrow> bool" where
  "fatal err =
    (case err of Some (CodedError text code) \<Rightarrow> code \<noteq> 320 \<and> code \<noteq> 200 | _ \<Rightarrow> True)"

definition forced :: "exn option" where
  "forced = Some (CodedError ''CONNECTION_FORCED'' 320)"

definition refused :: "exn option" where
  "refused = Some (CodedError ''ACCESS_REFUSED'' 403)"



definition listeners :: "string dispatch" where
  "listeners event payload =
    (if payload = ''bad'' then ([], Some (Error ''boom'')) else ([CallAck], None))"

text \<open>A caller's options object at reference 0, and a stand-in for \<^verbatim>\<open>parseInt\<close>.\<close>
definition caller_heap :: heap where
  "caller_heap =
    (\<lambda>r. empty_options)
      (0 := \<lparr>replyTo = None, correlationId = None, expiration = Some (ExpString ''5000''),
             rest = [(''persistent'', ''true'')]\<rparr>)"

definition parse :: "string \<Rightarrow> number" where
  "parse s = (if s = ''5000'' then Number 5000 else NaN)"

text \<open>A reply to the call with the correlation identifier \<^verbatim>\<open>01ARZ3\<close>.\<close>
definition reply :: message where
  "reply = \<lparr>content = ''pong'', properties = empty_options\<lparr>correlationId := Some ''01ARZ3''\<rparr>\<rparr>"

text \<open>
  The connection \<open>c\<close> raises the event \<open>name\<close> with \<open>err\<close>: the listeners the broker has
  registered on it for that event run.
\<close>
definition conn_event ::
  "(exn option \<Rightarrow> bool) \<Rightarrow> 't amqp \<Rightarrow> conn \<Rightarrow> string \<Rightarrow> exn option \<Rightarrow> exn option \<times> 't amqp"
  where
  "conn_event isFatalError b c name err =
    run_listeners isFatalError b (registered c name (trace b)) err"

section \<open>Properties\<close>

subsection \<open>The channel accessor\<close>

lemma amqp_channel_None:
  "channel b = None \<Longrightarrow> amqp_channel b = Inl (Error ''no available amqp channel'')"
  by (simp add: amqp_channel_def)

lemma amqp_channel_Some: "channel b = Some ch \<Longrightarrow> amqp_channel b = Inr ch"
  by (simp add: amqp_channel_def)

lemma connected_eq:
  "connected =
    fresh\<lparr>channel := Some 7, callback := Some ''amq.gen-1'',
          trace := [AmqpConnect ''amqp://localhost'' None,
                    ConnOn 1 ''close'' (CloseHandler ''localhost'' None),
                    ConnOn 1 ''error'' ErrorHandler,
                    CreateChannel 1,
                    Chan 7 (AssertQueue [] (Some [(''exclusive'', ''true'')])),
                    Chan 7 (Consume ''amq.gen-1'' ReplyHandler (Some [(''noAck'', ''true'')])),
                    Chan 7 (AssertExchange ''g'' ''direct'')]\<rparr>"
  by (simp add: connected_def connect_def transport_def perform_def fresh_def new_amqp_def)

lemma connected_sg_eq:
  "connected_sg =
    fresh_sg\<lparr>channel := Some 7, callback := Some ''amq.gen-1'',
          trace := [AmqpConnect ''amqp://localhost'' None,
                    ConnOn 1 ''close'' (CloseHandler ''localhost'' None),
                    ConnOn 1 ''error'' ErrorHandler,
                    CreateChannel 1,
                    Chan 7 (AssertQueue [] (Some [(''exclusive'', ''true'')])),
                    Chan 7 (Consume ''amq.gen-1'' ReplyHandler (Some [(''noAck'', ''true'')])),
                    Chan 7 (AssertExchange ''g'' ''direct'')]\<rparr>"
  by (simp add: connected_sg_def connect_def transport_def perform_def fresh_sg_def new_amqp_def)


lemma connected_channel: "channel connected = Some 7"
  by (simp add: connected_eq)

subsection \<open>Queue names\<close>

lemma queue_name_cases:
  "queue_name b ev =
    (case subgroup b of
       None \<Rightarrow> group b @ '':'' @ ev
     | Some sg \<Rightarrow> if sg = [] then group b @ '':'' @ ev else group b @ '':'' @ sg @ '':'' @ ev)"
  by (simp add: queue_name_def truthy_def split: option.splits)

lemma createQueue_live:
  assumes "channel b = Some ch"
  shows "createQueue b ev None None =
    (Resolved (queue_name b ev),
     b\<lparr>trace := trace b @
        [Chan ch (AssertQueue (queue_name b ev) (assert_options (options b))),
         Chan ch (BindQueue (queue_name b ev) (group b) ev)]\<rparr>)"
  using assms by (simp add: createQueue_def amqp_channel_def perform_def Let_def)

text \<open>
  Claim C2, as amended. The queue name is a function of the group, the subgroup and the
  event alone. It is \<open>group:event\<close> when the subgroup is unset or the empty string, and
  \<open>group:subgroup:event\<close> when the subgroup is a non-empty string. On a live channel whose
  calls succeed, \<^verbatim>\<open>createQueue\<close> asserts the queue of that name with the broker's assertion
  options, binds it to the exchange named by the group with the event as routing key, and
  resolves with the name.
\<close>
theorem createQueue_name:
  "(group b = group b' \<and> subgroup b = subgroup b' \<longrightarrow> queue_name b ev = queue_name b' ev)
   \<and> (subgroup b = None \<or> subgroup b = Some [] \<longrightarrow> queue_name b ev = group b @ '':'' @ ev)
   \<and> (\<forall>sg. subgroup b = Some sg \<and> sg \<noteq> [] \<longrightarrow>
          queue_name b ev = group b @ '':'' @ sg @ '':'' @ ev)
   \<and> (\<forall>ch. channel b = Some ch \<longrightarrow>
          createQueue b ev None None =
            (Resolved (queue_name b ev),
             b\<lparr>trace := trace b @
                [Chan ch (AssertQueue (queue_name b ev) (assert_options (options b))),
                 Chan ch (BindQueue (queue_name b ev) (group b) ev)]\<rparr>))"
proof -
  have "group b = group b' \<and> subgroup b = subgroup b' \<longrightarrow> queue_name b ev = queue_name b' ev"
    by (simp add: queue_name_def)
  moreover have
    "subgroup b = None \<or> subgroup b = Some [] \<longrightarrow> queue_name b ev = group b @ '':'' @ ev"
    by (auto simp: queue_name_cases)
  moreover have "\<forall>sg. subgroup b = Some sg \<and> sg \<noteq> [] \<longrightarrow>
      queue_name b ev = group b @ '':'' @ sg @ '':'' @ ev"
    by (simp add: queue_name_cases)
  ultimately show ?thesis
    by (simp add: createQueue_live)
qed

theorem createQueue_name_witness:
  "queue_name fresh ''ev'' = ''g:ev''
   \<and> queue_name fresh_empty_sg ''ev'' = ''g:ev''
   \<and> queue_name connected_sg ''ev'' = ''g:sg:ev''
   \<and> createQueue connected_sg ''ev'' None None =
       (Resolved ''g:sg:ev'',
        connected_sg\<lparr>trace := trace connected_sg @
           [Chan 7 (AssertQueue ''g:sg:ev'' None), Chan 7 (BindQueue ''g:sg:ev'' ''g'' ''ev'')]\<rparr>)"
  using createQueue_name [of fresh fresh "''ev''"]
    createQueue_name [of fresh_empty_sg fresh_empty_sg "''ev''"]
    createQueue_name [of connected_sg connected_sg "''ev''"]
  by (simp add: connected_sg_eq fresh_def fresh_sg_def fresh_empty_sg_def new_amqp_def
      no_options_def)

text \<open>
  Claim C2 as stated fails for \<^verbatim>\<open>new Amqp('g', '')\<close>: the subgroup is set, to the empty
  string, and the queue of the event \<open>ev\<close> is \<open>g:ev\<close>, not \<open>g::ev\<close>.
\<close>
theorem empty_subgroup_counterexample:
  "subgroup fresh_empty_sg = Some []
   \<and> queue_name fresh_empty_sg ''ev'' = ''g:ev''
   \<and> ''g:ev'' \<noteq> ''g'' @ '':'' @ [] @ '':'' @ ''ev''"
  by (simp add: fresh_empty_sg_def new_amqp_def queue_name_def truthy_def)

subsection \<open>The reconnect delay\<close>

text \<open>
  Claim C7. The constructor's documentation gives \<^verbatim>\<open>reconnectTimeout\<close> the default 1e4, and
  the constructor sets none: \<^verbatim>\<open>new Amqp('g')\<close> has no \<^verbatim>\<open>reconnectTimeout\<close>, and after a
  failed attempt \<^verbatim>\<open>connect('localhost')\<close> waits with \<^verbatim>\<open>undefined\<close> as the delay.
\<close>
theorem reconnectTimeout_no_default:
  "reconnectTimeout (options fresh) = None
   \<and> trace (snd (connect fresh (Url ''localhost'') None [Inl (Error ''refused'')] transport))
      = [AmqpConnect ''amqp://localhost'' None, Emit ''close'' (Some (Error ''refused'')),
         Sleep None, AmqpConnect ''amqp://localhost'' None]"
  by (simp add: fresh_def new_amqp_def no_options_def connect_def perform_def emit_def)

subsection \<open>The turns of the callbacks\<close>

lemma run_each_Cons:
  "run_each step b (x # xs) =
    (fst (step b x) # fst (run_each step (snd (step b x)) xs),
     snd (run_each step (snd (step b x)) xs))"
  by (simp split: prod.splits)





lemma resume_settled:
  "run_each subscribe_resume b (map (at_stage after_consume) evs) =
    (map (at_stage after_consume) evs, b)"
proof (induction evs arbitrary: b)
  case Nil
  show ?case by simp
next
  case (Cons er evs)
  have step: "subscribe_resume b (at_stage after_consume er) = (at_stage after_consume er, b)"
    by (auto simp: subscribe_resume_def at_stage_def after_consume_def
        split: option.splits sum.splits)
  show ?case
    by (simp add: run_each_Cons step Cons.IH del: run_each.simps)
qed


lemma first_rejection_append:
  "first_rejection (ts @ us) =
    (case first_rejection ts of Some e \<Rightarrow> Some e | None \<Rightarrow> first_rejection us)"
  by (induction ts) (auto split: option.splits)



















subsection \<open>Before the channel exists\<close>

lemma subscribe_start_no_channel:
  "channel b = None \<Longrightarrow>
    run_each subscribe_start b evs =
      (map (at_stage (\<lambda>er. Settled (Rejected (Error ''no available amqp channel'')))) evs, b)"
proof (induction evs)
  case Nil
  show ?case by simp
next
  case (Cons er evs)
  have step: "subscribe_start b er =
      (at_stage (\<lambda>er. Settled (Rejected (Error ''no available amqp channel''))) er, b)"
    using Cons.prems
    by (simp add: subscribe_start_def amqp_channel_None at_stage_def Let_def case_prod_unfold)
  show ?case
    using Cons by (simp add: run_each_Cons step del: run_each.simps)
qed

lemma resume_rejected:
  "run_each subscribe_resume b (map (at_stage (\<lambda>er. Settled (Rejected e))) evs) =
    (map (at_stage (\<lambda>er. Settled (Rejected e))) evs, b)"
proof (induction evs)
  case Nil
  show ?case by simp
next
  case (Cons er evs)
  have step: "subscribe_resume b (at_stage (\<lambda>er. Settled (Rejected e)) er) =
      (at_stage (\<lambda>er. Settled (Rejected e)) er, b)"
    by (simp add: subscribe_resume_def at_stage_def)
  show ?case
    using Cons by (simp add: run_each_Cons step del: run_each.simps)
qed

lemma first_rejection_rejected:
  "evs \<noteq> [] \<Longrightarrow> first_rejection (map (at_stage (\<lambda>er. Settled (Rejected e))) evs) = Some e"
  by (cases evs) (simp_all add: at_stage_def rejection_def awaited_def)

lemma subscribe_no_channel:
  assumes "channel b = None" and "evs \<noteq> []"
  shows "amqp_subscribe b evs = (Rejected (Error ''no available amqp channel''), b)"
  using assms(2)
  by (simp add: amqp_subscribe_def subscribe_start_no_channel [OF assms(1)] resume_rejected
      promise_all_def first_rejection_append first_rejection_rejected)

text \<open>
  Claim C9, as amended. While no channel is assigned, \<^verbatim>\<open>publish\<close> throws the error
  \<open>no available amqp channel\<close> at its caller; \<^verbatim>\<open>createQueue\<close>, and \<^verbatim>\<open>_subscribe\<close> for at
  least one event, return a promise rejected with that error. In each case the broker is
  left as it was: nothing was asked of the transport and nothing is tried again.
\<close>
theorem no_channel_fails:
  assumes "channel b = None"
  shows "publish b ev d opts = (Threw (Error ''no available amqp channel''), b)
    \<and> createQueue b ev ra rb = (Rejected (Error ''no available amqp channel''), b)
    \<and> (evs \<noteq> [] \<longrightarrow>
         amqp_subscribe b evs = (Rejected (Error ''no available amqp channel''), b))"
  using assms
  by (simp add: publish_def createQueue_def amqp_channel_None subscribe_no_channel)

theorem no_channel_fails_witness:
  "channel fresh = None
   \<and> publish fresh ''ev'' ''data'' None = (Threw (Error ''no available amqp channel''), fresh)
   \<and> createQueue fresh ''ev'' None None = (Rejected (Error ''no available amqp channel''), fresh)
   \<and> amqp_subscribe fresh [(''ev'', ok ''tag'')] =
       (Rejected (Error ''no available amqp channel''), fresh)"
proof -
  have c: "channel fresh = None"
    by (simp add: fresh_def new_amqp_def)
  show ?thesis
    using c no_channel_fails [OF c, of "''ev''" "''data''" None None None "[(''ev'', ok ''tag'')]"]
    by simp
qed

text \<open>
  Claim C9 as stated fails for \<^verbatim>\<open>createQueue\<close> and for \<^verbatim>\<open>_subscribe([])\<close> on a broker that
  never connected: the first does not throw at its caller, it returns a rejected promise;
  the second resolves.
\<close>
theorem createQueue_rejects_counterexample:
  "channel fresh = None
   \<and> createQueue fresh ''ev'' None None = (Rejected (Error ''no available amqp channel''), fresh)
   \<and> \<not> is_throw (fst (createQueue fresh ''ev'' None None))
   \<and> amqp_subscribe fresh [] = (Resolved [], fresh)"
  by (simp add: fresh_def new_amqp_def createQueue_def amqp_channel_def is_throw_def
      amqp_subscribe_def promise_all_def)

subsection \<open>Subscribing\<close>




subsection \<open>Unsubscribing\<close>

text \<open>
  Claim C4. \<^verbatim>\<open>_consumers\<close> is declared a dictionary from event names to strings, and
  line 196 tests \<^verbatim>\<open>this._consumers[event]\<close> for truthiness. For an ordinary event name
  with no consumer recorded \<^verbatim>\<open>_unsubscribe\<close> resolves with \<open>false\<close>. For the event
  name \<^verbatim>\<open>constructor\<close>, with no consumer recorded either, the test finds the function
  every object inherits under that name: on a broker that never connected the promise is
  rejected with the error of the missing channel, and on a connected broker that function
  is handed to \<^verbatim>\<open>cancel\<close> and the promise resolves with \<open>true\<close>.
\<close>
theorem unsubscribe_inherited_name:
  "consumers fresh ''constructor'' = None
   \<and> amqp_unsubscribe fresh [(''ev'', None)] = (Resolved [False], fresh)
   \<and> amqp_unsubscribe fresh [(''constructor'', None)] =
       (Rejected (Error ''no available amqp channel''), fresh)
   \<and> consumers connected ''constructor'' = None
   \<and> amqp_unsubscribe connected [(''constructor'', None)] =
       (Resolved [True],
        connected\<lparr>trace := trace connected @ [Chan 7 (Cancel (Inherited ''constructor''))]\<rparr>)"
proof -
  have f: "consumers fresh = Map.empty" "channel fresh = None"
    by (simp_all add: fresh_def new_amqp_def)
  have c: "consumers connected = Map.empty"
    by (simp add: connected_eq f)
  have i: "js_get Map.empty ''constructor'' = Some (Inherited ''constructor'')"
    "js_get Map.empty ''ev'' = None"
    by (simp_all add: js_get_def object_prototype_def)
  have 1: "amqp_unsubscribe fresh [(''ev'', None)] = (Resolved [False], fresh)"
    by (simp add: amqp_unsubscribe_def unsubscribe_start_def unsubscribe_resume_def f i
        promise_all_def rejection_def awaited_def)
  have 2: "amqp_unsubscribe fresh [(''constructor'', None)] =
       (Rejected (Error ''no available amqp channel''), fresh)"
    by (simp add: amqp_unsubscribe_def unsubscribe_start_def unsubscribe_resume_def f i
        js_truthy_def amqp_channel_None promise_all_def rejection_def awaited_def)
  have 3: "amqp_unsubscribe connected [(''constructor'', None)] =
       (Resolved [True],
        connected\<lparr>trace := trace connected @ [Chan 7 (Cancel (Inherited ''constructor''))]\<rparr>)"
    by (simp add: amqp_unsubscribe_def unsubscribe_start_def unsubscribe_resume_def c i
        js_truthy_def amqp_channel_Some [OF connected_channel] promise_all_def rejection_def
        awaited_def perform_def js_delete_def)
  show ?thesis
    using f c 1 2 3 by simp
qed

subsection \<open>Deliveries\<close>










subsection \<open>Connecting\<close>

lemma retry_ops_trace: "retry_ops (b\<lparr>trace := tr\<rparr>) url copts e = retry_ops b url copts e"
  by (simp add: retry_ops_def)

lemma connect_loop_failures:
  "connect_loop b url copts (map Inl es @ later) =
    connect_loop (b\<lparr>trace := trace b @ concat (map (retry_ops b url copts) es)\<rparr>) url copts later"
proof (induction es arbitrary: b)
  case Nil
  show ?case by simp
next
  case (Cons e es)
  let ?b1 = "b\<lparr>trace := trace b @ retry_ops b url copts e\<rparr>"
  have step: "connect_loop b url copts (map Inl (e # es) @ later) =
      connect_loop ?b1 url copts (map Inl es @ later)"
    by (simp add: perform_def emit_def retry_ops_def)
  have ops: "retry_ops ?b1 url copts = retry_ops b url copts"
    by (rule ext) (simp add: retry_ops_def)
  show ?case
    by (simp only: step Cons.IH [of ?b1] ops) simp
qed

lemma connect_loop_all_fail:
  "connect_loop b url copts (map Inl es) =
    (None,
     b\<lparr>trace := trace b @ concat (map (retry_ops b url copts) es) @
        [AmqpConnect (''amqp://'' @ url) copts]\<rparr>)"
  using connect_loop_failures [of b url copts es "[]"]
  by (simp add: perform_def)

lemma connect_loop_success:
  "connect_loop b url copts (map Inl es @ Inr c # later) =
    (Some c,
     b\<lparr>trace := trace b @ concat (map (retry_ops b url copts) es) @
        [AmqpConnect (''amqp://'' @ url) copts,
         ConnOn c ''close'' (CloseHandler url copts),
         ConnOn c ''error'' ErrorHandler]\<rparr>)"
  using connect_loop_failures [of b url copts es "Inr c # later"]
  by (simp add: perform_def)

lemma attempts_cases:
  "(\<exists>es. attempts = map Inl es) \<or> (\<exists>es c later. attempts = map Inl es @ Inr c # later)"
proof (induction attempts)
  case Nil
  have "[] = map Inl []" by simp
  then have "\<exists>es. [] = map Inl es" by (rule exI)
  then show ?case by (rule disjI1)
next
  case (Cons a attempts)
  show ?case
  proof (cases a)
    case (Inl e)
    from Cons.IH show ?thesis
    proof
      assume "\<exists>es. attempts = map Inl es"
      then obtain es where "attempts = map Inl es" ..
      then have "a # attempts = map Inl (e # es)" using Inl by simp
      then have "\<exists>es. a # attempts = map Inl es" by (rule exI)
      then show ?thesis by (rule disjI1)
    next
      assume "\<exists>es c later. attempts = map Inl es @ Inr c # later"
      then obtain es c later where "attempts = map Inl es @ Inr c # later" by blast
      then have "a # attempts = map Inl (e # es) @ Inr c # later" using Inl by simp
      then have "\<exists>later. a # attempts = map Inl (e # es) @ Inr c # later" by (rule exI)
      then have "\<exists>c later. a # attempts = map Inl (e # es) @ Inr c # later" by (rule exI)
      then have "\<exists>es c later. a # attempts = map Inl es @ Inr c # later" by (rule exI)
      then show ?thesis by (rule disjI2)
    qed
  next
    case (Inr c)
    then have "a # attempts = map Inl [] @ Inr c # attempts" by simp
    then have "\<exists>later. a # attempts = map Inl [] @ Inr c # later" by (rule exI)
    then have "\<exists>c later. a # attempts = map Inl [] @ Inr c # later" by (rule exI)
    then have "\<exists>es c later. a # attempts = map Inl es @ Inr c # later" by (rule exI)
    then show ?thesis by (rule disjI2)
  qed
qed

text \<open>
  Claim C5. Given a URL, \<^verbatim>\<open>connect\<close> makes one attempt after the other. Each failed
  attempt is followed by a \<open>close\<close> notification carrying the error and by a wait of
  \<^verbatim>\<open>options.reconnectTimeout\<close>, and only then by the next attempt. However many attempts
  have failed, the promise of \<^verbatim>\<open>connect\<close> has not settled and the next attempt is under
  way; the loop ends at the first attempt that yields a connection, and \<^verbatim>\<open>connect\<close>
  settles only if some attempt did.
\<close>
theorem connect_retries_until_connected:
  "connect b (Url url) copts (map Inl es) r =
     (None,
      b\<lparr>trace := trace b @ concat (map (retry_ops b url copts) es) @
         [AmqpConnect (''amqp://'' @ url) copts]\<rparr>)
   \<and> connect_loop b url copts (map Inl es @ Inr c # later) =
     (Some c,
      b\<lparr>trace := trace b @ concat (map (retry_ops b url copts) es) @
         [AmqpConnect (''amqp://'' @ url) copts,
          ConnOn c ''close'' (CloseHandler url copts),
          ConnOn c ''error'' ErrorHandler]\<rparr>)
   \<and> (fst (connect b (Url url) copts attempts r) \<noteq> None \<longrightarrow>
        (\<exists>es c later. attempts = map Inl es @ Inr c # later))"
proof -
  have none: "\<And>es. connect b (Url url) copts (map Inl es) r =
     (None,
      b\<lparr>trace := trace b @ concat (map (retry_ops b url copts) es) @
         [AmqpConnect (''amqp://'' @ url) copts]\<rparr>)"
    by (simp add: connect_def connect_loop_all_fail)
  have "fst (connect b (Url url) copts attempts r) \<noteq> None \<longrightarrow>
        (\<exists>es c later. attempts = map Inl es @ Inr c # later)"
    using attempts_cases [of attempts] none by auto
  then show ?thesis
    using none connect_loop_success by blast
qed

theorem connect_retries_until_connected_witness:
  "connect patient (Url ''localhost'') None [Inl (Error ''refused''), Inl (Error ''reset'')] transport =
     (None,
      patient\<lparr>trace :=
         [AmqpConnect ''amqp://localhost'' None, Emit ''close'' (Some (Error ''refused'')),
          Sleep (Some (Number 500)),
          AmqpConnect ''amqp://localhost'' None, Emit ''close'' (Some (Error ''reset'')),
          Sleep (Some (Number 500)),
          AmqpConnect ''amqp://localhost'' None]\<rparr>)
   \<and> fst (connect_loop patient ''localhost'' None [Inl (Error ''refused''), Inr 1]) = Some 1
   \<and> fst (connect patient (Url ''localhost'') None [Inl (Error ''refused''), Inr 1] transport)
       = Some (Resolved 1)"
proof -
  have "connect patient (Url ''localhost'') None (map Inl [Error ''refused'', Error ''reset'']) transport =
     (None,
      patient\<lparr>trace := trace patient @
         concat (map (retry_ops patient ''localhost'' None) [Error ''refused'', Error ''reset'']) @
         [AmqpConnect (''amqp://'' @ ''localhost'') None]\<rparr>)"
    using connect_retries_until_connected
      [of patient "''localhost''" None "[Error ''refused'', Error ''reset'']" transport]
    by blast
  moreover have "trace patient = []" "reconnectTimeout (options patient) = Some (Number 500)"
    by (simp_all add: patient_def new_amqp_def no_options_def)
  moreover have "fst (connect_loop patient ''localhost'' None [Inl (Error ''refused''), Inr 1]) = Some 1"
    by simp
  moreover have "fst (connect patient (Url ''localhost'') None [Inl (Error ''refused''), Inr 1] transport)
       = Some (Resolved 1)"
    by (simp add: connect_def transport_def Let_def)
  ultimately show ?thesis
    by (simp add: retry_ops_def)
qed

lemma registered_append:
  "registered c name (xs @ ys) = registered c name xs @ registered c name ys"
  by (induction xs rule: registered.induct) simp_all

lemma registered_retry: "registered c name (concat (map (retry_ops b url copts) es)) = []"
  by (induction es) (simp_all add: retry_ops_def)

lemma connect_resolved:
  assumes "connect b0 (Url url) copts attempts r = (Some (Resolved c), b)"
  shows "\<exists>es ch q.
      trace b = trace b0 @ concat (map (retry_ops b0 url copts) es) @
        [AmqpConnect (''amqp://'' @ url) copts,
         ConnOn c ''close'' (CloseHandler url copts),
         ConnOn c ''error'' ErrorHandler,
         CreateChannel c,
         Chan ch (AssertQueue [] (Some [(''exclusive'', ''true'')])),
         Chan ch (Consume q ReplyHandler (Some [(''noAck'', ''true'')])),
         Chan ch (AssertExchange (group b0) ''direct'')]
      \<and> options b = options b0 \<and> listened b = listened b0"
proof -
  from attempts_cases [of attempts] show ?thesis
  proof
    assume "\<exists>es. attempts = map Inl es"
    then obtain es where "attempts = map Inl es" ..
    then have "fst (connect b0 (Url url) copts attempts r) = None"
      by (simp add: connect_def connect_loop_all_fail)
    then show ?thesis using assms by simp
  next
    assume "\<exists>es c' later. attempts = map Inl es @ Inr c' # later"
    then obtain es c' later where a: "attempts = map Inl es @ Inr c' # later" by blast
    show ?thesis
      using assms
      by (auto simp: a connect_def connect_loop_success Let_def perform_def
          split: sum.splits option.splits)
  qed
qed

lemma connect_listeners:
  assumes "connect b0 (Url url) copts attempts r = (Some (Resolved c), b)"
    and "registered c ''close'' (trace b0) = []" and "registered c ''error'' (trace b0) = []"
  shows "registered c ''close'' (trace b) = [CloseHandler url copts]"
    and "registered c ''error'' (trace b) = [ErrorHandler]"
    and "options b = options b0" and "listened b = listened b0"
proof -
  from connect_resolved [OF assms(1)] obtain es ch q where
    tr: "trace b = trace b0 @ concat (map (retry_ops b0 url copts) es) @
        [AmqpConnect (''amqp://'' @ url) copts,
         ConnOn c ''close'' (CloseHandler url copts),
         ConnOn c ''error'' ErrorHandler,
         CreateChannel c,
         Chan ch (AssertQueue [] (Some [(''exclusive'', ''true'')])),
         Chan ch (Consume q ReplyHandler (Some [(''noAck'', ''true'')])),
         Chan ch (AssertExchange (group b0) ''direct'')]"
    and same: "options b = options b0" "listened b = listened b0"
    by blast
  show "registered c ''close'' (trace b) = [CloseHandler url copts]"
    by (simp add: tr registered_append registered_retry assms(2))
  show "registered c ''error'' (trace b) = [ErrorHandler]"
    by (simp add: tr registered_append registered_retry assms(3))
  show "options b = options b0" "listened b = listened b0"
    using same by simp_all
qed

lemma connect_adopts:
  "registered c name (trace (snd (connect b (Connection c) copts attempts r))) =
    registered c name (trace b)"
  by (simp add: connect_def Let_def perform_def registered_append split: sum.splits option.splits)

text \<open>
  Claim C6, as amended. \<^verbatim>\<open>connect\<close> registers its two listeners on a connection it
  obtained from a URL, and none on a connection it was given. After \<^verbatim>\<open>connect\<close> has
  resolved with a connection from a URL: a close event that is not fatal emits a \<open>close\<close>
  notification and sets a timer of \<^verbatim>\<open>options.reconnectTimeout\<close> that calls \<^verbatim>\<open>connect\<close>
  again with the same arguments; a fatal close event schedules nothing and emits nothing;
  an error event emits an \<open>error\<close> notification when the broker has a listener for
  \<open>error\<close>, and makes the emitter throw the error when it has none; in neither case is
  anything else done to the connection. So a fatal close that the connection announces by
  an error event first is reported once, as \<open>error\<close>.
\<close>
theorem connection_events:
  assumes "connect b0 (Url url) copts attempts r = (Some (Resolved c), b)"
    and "registered c ''close'' (trace b0) = []" and "registered c ''error'' (trace b0) = []"
  shows "(\<not> isFatalError err \<longrightarrow>
      conn_event isFatalError b c ''close'' err =
        (None,
         b\<lparr>trace := trace b @
           [Emit ''close'' err, SetTimeoutConnect (reconnectTimeout (options b)) url copts]\<rparr>))
   \<and> (isFatalError err \<longrightarrow> conn_event isFatalError b c ''close'' err = (None, b))
   \<and> (''error'' \<in> listened b \<longrightarrow>
        conn_event isFatalError b c ''error'' err =
          (None, b\<lparr>trace := trace b @ [Emit ''error'' err]\<rparr>))
   \<and> (''error'' \<notin> listened b \<longrightarrow>
        conn_event isFatalError b c ''error'' err = (Some (unhandled err), b))
   \<and> (isFatalError err \<and> ''error'' \<in> listened b \<longrightarrow>
        conn_event isFatalError (snd (conn_event isFatalError b c ''error'' err)) c ''close'' err =
          (None, b\<lparr>trace := trace b @ [Emit ''error'' err]\<rparr>))
   \<and> (\<forall>b1 c1 name attempts1 r1.
        registered c1 name (trace (snd (connect b1 (Connection c1) copts attempts1 r1))) =
          registered c1 name (trace b1))"
proof -
  note l = connect_listeners [OF assms]
  have close: "\<And>b'. registered c ''close'' (trace b') = [CloseHandler url copts] \<Longrightarrow>
      conn_event isFatalError b' c ''close'' err =
        (None, on_close isFatalError b' url copts err)"
    by (simp add: conn_event_def run_conn_handler_def)
  have error: "conn_event isFatalError b c ''error'' err = emit_error b err"
    by (simp add: conn_event_def l(2) run_conn_handler_def on_error_def split: prod.splits option.splits)
  have 1: "\<not> isFatalError err \<longrightarrow>
      conn_event isFatalError b c ''close'' err =
        (None,
         b\<lparr>trace := trace b @
           [Emit ''close'' err, SetTimeoutConnect (reconnectTimeout (options b)) url copts]\<rparr>)"
    by (simp add: close [OF l(1)] on_close_def emit_def perform_def)
  have 2: "isFatalError err \<longrightarrow> conn_event isFatalError b c ''close'' err = (None, b)"
    by (simp add: close [OF l(1)] on_close_def)
  have 3: "''error'' \<in> listened b \<longrightarrow>
        conn_event isFatalError b c ''error'' err =
          (None, b\<lparr>trace := trace b @ [Emit ''error'' err]\<rparr>)"
    by (simp add: error emit_error_def perform_def)
  have 4: "''error'' \<notin> listened b \<longrightarrow>
        conn_event isFatalError b c ''error'' err = (Some (unhandled err), b)"
    by (simp add: error emit_error_def)
  have 5: "isFatalError err \<and> ''error'' \<in> listened b \<longrightarrow>
        conn_event isFatalError (snd (conn_event isFatalError b c ''error'' err)) c ''close'' err =
          (None, b\<lparr>trace := trace b @ [Emit ''error'' err]\<rparr>)"
  proof (intro impI, elim conjE)
    assume f: "isFatalError err" and h: "''error'' \<in> listened b"
    let ?b1 = "b\<lparr>trace := trace b @ [Emit ''error'' err]\<rparr>"
    have s: "snd (conn_event isFatalError b c ''error'' err) = ?b1"
      using 3 h by simp
    have r: "registered c ''close'' (trace ?b1) = [CloseHandler url copts]"
      by (simp add: registered_append l(1))
    show "conn_event isFatalError (snd (conn_event isFatalError b c ''error'' err)) c ''close'' err =
          (None, b\<lparr>trace := trace b @ [Emit ''error'' err]\<rparr>)"
      using f by (simp only: s close [OF r]) (simp add: on_close_def)
  qed
  have 6: "\<forall>b1 c1 name attempts1 r1.
        registered c1 name (trace (snd (connect b1 (Connection c1) copts attempts1 r1))) =
          registered c1 name (trace b1)"
    by (simp add: connect_adopts)
  show ?thesis
    using 1 2 3 4 5 6 by (intro conjI)
qed

lemma watched_connect:
  "connect (on_event fresh ''error'') (Url ''localhost'') None [Inr 1] transport =
    (Some (Resolved 1), watched)"
  by (simp add: watched_def connect_def transport_def Let_def)

lemma connected_connect:
  "connect fresh (Url ''localhost'') None [Inr 1] transport = (Some (Resolved 1), connected)"
  by (simp add: connected_def connect_def transport_def Let_def)

lemma fresh_unregistered:
  "registered c name (trace fresh) = []" "registered c name (trace (on_event fresh ''error'')) = []"
  by (simp_all add: fresh_def new_amqp_def on_event_def)

theorem connection_events_witness:
  "conn_event fatal watched 1 ''close'' forced =
      (None,
       watched\<lparr>trace := trace watched @
         [Emit ''close'' forced, SetTimeoutConnect None ''localhost'' None]\<rparr>)
   \<and> conn_event fatal watched 1 ''close'' refused = (None, watched)
   \<and> conn_event fatal watched 1 ''error'' refused =
      (None, watched\<lparr>trace := trace watched @ [Emit ''error'' refused]\<rparr>)
   \<and> conn_event fatal (snd (conn_event fatal watched 1 ''error'' refused)) 1 ''close'' refused =
      (None, watched\<lparr>trace := trace watched @ [Emit ''error'' refused]\<rparr>)
   \<and> conn_event fatal connected 1 ''error'' refused =
      (Some (CodedError ''ACCESS_REFUSED'' 403), connected)"
proof -
  note w = connection_events [OF watched_connect fresh_unregistered(2) fresh_unregistered(2)]
  note u = connection_events [OF connected_connect fresh_unregistered(1) fresh_unregistered(1)]
  have k: "\<not> fatal forced" "fatal refused"
    by (simp_all add: fatal_def forced_def refused_def)
  have o: "reconnectTimeout (options watched) = None" "''error'' \<in> listened watched"
    "''error'' \<notin> listened connected"
    using connect_listeners(3,4) [OF watched_connect fresh_unregistered(2) fresh_unregistered(2)]
      connect_listeners(4) [OF connected_connect fresh_unregistered(1) fresh_unregistered(1)]
    by (simp_all add: on_event_def fresh_def new_amqp_def no_options_def)
  have 1: "conn_event fatal watched 1 ''close'' forced =
      (None,
       watched\<lparr>trace := trace watched @
         [Emit ''close'' forced, SetTimeoutConnect None ''localhost'' None]\<rparr>)"
  proof -
    have "\<not> fatal forced \<longrightarrow>
      conn_event fatal watched 1 ''close'' forced =
        (None,
         watched\<lparr>trace := trace watched @
           [Emit ''close'' forced,
            SetTimeoutConnect (reconnectTimeout (options watched)) ''localhost'' None]\<rparr>)"
      using w [of fatal forced] by blast
    then show ?thesis
      using k(1) by (simp add: o(1))
  qed
  have 2: "conn_event fatal watched 1 ''close'' refused = (None, watched)"
    using w [of fatal refused] k(2) by blast
  have 3: "conn_event fatal watched 1 ''error'' refused =
      (None, watched\<lparr>trace := trace watched @ [Emit ''error'' refused]\<rparr>)"
    using w [of fatal refused] o(2) by blast
  have 4: "conn_event fatal (snd (conn_event fatal watched 1 ''error'' refused)) 1 ''close'' refused =
      (None, watched\<lparr>trace := trace watched @ [Emit ''error'' refused]\<rparr>)"
    using w [of fatal refused] k(2) o(2) by blast
  have 5: "conn_event fatal connected 1 ''error'' refused = (Some (unhandled refused), connected)"
    using u [of fatal refused] o(3) by blast
  show ?thesis
    using 1 2 3 4 5 by (simp add: unhandled_def refused_def)
qed

text \<open>
  Claim C6 as stated fails after \<^verbatim>\<open>connect(conn)\<close> with a connection another party
  opened: \<^verbatim>\<open>connect\<close> resolves, and a close event of that connection that is not fatal
  neither emits \<open>close\<close> nor schedules a reconnect.
\<close>
theorem adopted_connection_counterexample:
  "connect fresh (Connection 1) None [] transport = (Some (Resolved 1), adopted)
   \<and> \<not> fatal forced
   \<and> conn_event fatal adopted 1 ''close'' forced = (None, adopted)"
proof -
  have "registered 1 ''close'' (trace adopted) = []"
    by (simp add: adopted_def connect_adopts fresh_unregistered)
  then show ?thesis
    by (simp add: conn_event_def fatal_def forced_def)
      (simp add: adopted_def connect_def transport_def Let_def)
qed

subsection \<open>Calls and their replies\<close>

lemma publish_live:
  "channel b = Some ch \<Longrightarrow>
    publish b event d (Some opts) =
      (Returned (), b\<lparr>trace := trace b @ [Chan ch (Publish (group b) event (serialize b d) opts)]\<rparr>)"
  by (simp add: publish_def amqp_channel_def perform_def)

lemma call_live:
  assumes "channel b = Some ch"
  shows "call b method d optref c parseInt h =
    (Returned c,
     b\<lparr>responses := (responses b)
          (c \<mapsto> expiration_window parseInt
             (object_assign (case optref of None \<Rightarrow> empty_options | Some r \<Rightarrow> h r) (callback b) c)),
       trace := trace b @
         [Chan ch (Publish (group b) method (serialize b d)
            (object_assign (case optref of None \<Rightarrow> empty_options | Some r \<Rightarrow> h r) (callback b) c))]\<rparr>,
     case optref of None \<Rightarrow> h
     | Some r \<Rightarrow> h(r := object_assign (h r) (callback b) c))"
  using assms
  by (cases optref) (simp_all add: call_def Let_def publish_live awaited_def awaitResponse_def)

lemma call_heap:
  "snd (snd (call b method d optref c parseInt h)) =
    (case optref of None \<Rightarrow> h | Some r \<Rightarrow> h(r := object_assign (h r) (callback b) c))"
  by (cases optref)
    (simp_all add: call_def Let_def publish_def amqp_channel_def awaited_def
      split: option.splits)

lemma connect_registers_reply_consumer:
  assumes "connect b0 urlOrConn copts attempts r = (Some (Resolved cn), b1)"
  shows "\<exists>ch q. channel b1 = Some ch \<and> callback b1 = Some q
      \<and> Chan ch (Consume q ReplyHandler (Some [(''noAck'', ''true'')])) \<in> set (trace b1)"
  using assms
  by (auto simp: connect_def Let_def perform_def split: prod.splits option.splits sum.splits)

text \<open>
  Claim C1. On a live channel, \<^verbatim>\<open>call\<close> publishes the serialized data to the exchange
  under the method as routing key, with options whose \<open>replyTo\<close> is the broker's callback
  queue and whose \<open>correlationId\<close> is the identifier just generated; the payload is the
  serialized data and nothing else. It returns the promise of a pending entry stored under
  that identifier. When the consumer of the callback queue then receives a message with
  that correlation identifier, the entry is removed and the promise is resolved with the
  decoded content. A broker that \<^verbatim>\<open>connect\<close> has connected has that consumer registered
  on its callback queue.
\<close>
theorem call_publishes_and_correlates:
  assumes "channel b = Some ch"
  shows "call b method d optref c parseInt h =
      (Returned c,
       b\<lparr>responses := (responses b)
            (c \<mapsto> expiration_window parseInt
               (object_assign (case optref of None \<Rightarrow> empty_options | Some r \<Rightarrow> h r)
                  (callback b) c)),
         trace := trace b @
           [Chan ch (Publish (group b) method (serialize b d)
              (object_assign (case optref of None \<Rightarrow> empty_options | Some r \<Rightarrow> h r)
                 (callback b) c))]\<rparr>,
       case optref of None \<Rightarrow> h | Some r \<Rightarrow> h(r := object_assign (h r) (callback b) c))
    \<and> replyTo (object_assign opts (callback b) c) = callback b
    \<and> correlationId (object_assign opts (callback b) c) = Some c
    \<and> (\<forall>msg. correlationId (properties msg) = Some c \<longrightarrow>
          run_handler hm ReplyHandler (fst (snd (call b method d optref c parseInt h))) (Some msg) =
            (Returned (),
             b\<lparr>responses := (responses b)(c := None),
               trace := trace b @
                 [Chan ch (Publish (group b) method (serialize b d)
                    (object_assign (case optref of None \<Rightarrow> empty_options | Some r \<Rightarrow> h r)
                       (callback b) c)),
                  Settle c (deserialize b (content msg))]\<rparr>))
    \<and> (\<forall>b0 urlOrConn copts attempts r cn.
          connect b0 urlOrConn copts attempts r = (Some (Resolved cn), b) \<longrightarrow>
          (\<exists>q. callback b = Some q
             \<and> Chan ch (Consume q ReplyHandler (Some [(''noAck'', ''true'')])) \<in> set (trace b)))"
proof -
  note run = call_live [OF assms, of "method" d optref c parseInt h]
  have settle: "\<forall>msg. correlationId (properties msg) = Some c \<longrightarrow>
          run_handler hm ReplyHandler (fst (snd (call b method d optref c parseInt h))) (Some msg) =
            (Returned (),
             b\<lparr>responses := (responses b)(c := None),
               trace := trace b @
                 [Chan ch (Publish (group b) method (serialize b d)
                    (object_assign (case optref of None \<Rightarrow> empty_options | Some r \<Rightarrow> h r)
                       (callback b) c)),
                  Settle c (deserialize b (content msg))]\<rparr>)"
    by (simp add: run run_handler_def on_reply_def handleReply_def perform_def)
  have reg: "\<forall>b0 urlOrConn copts attempts r cn.
          connect b0 urlOrConn copts attempts r = (Some (Resolved cn), b) \<longrightarrow>
          (\<exists>q. callback b = Some q
             \<and> Chan ch (Consume q ReplyHandler (Some [(''noAck'', ''true'')])) \<in> set (trace b))"
    using connect_registers_reply_consumer assms by fastforce
  show ?thesis
    using run settle reg by (simp add: object_assign_def)
qed

theorem call_publishes_and_correlates_witness:
  "channel connected = Some 7
   \<and> call connected ''ping'' ''data'' (Some 0) ''01ARZ3'' parse caller_heap =
      (Returned ''01ARZ3'',
       connected\<lparr>responses := [''01ARZ3'' \<mapsto> Some (Number 5000)],
         trace := trace connected @
           [Chan 7 (Publish ''g'' ''ping'' ''data''
              \<lparr>replyTo = Some ''amq.gen-1'', correlationId = Some ''01ARZ3'',
               expiration = Some (ExpString ''5000''), rest = [(''persistent'', ''true'')]\<rparr>)]\<rparr>,
       caller_heap(0 := \<lparr>replyTo = Some ''amq.gen-1'', correlationId = Some ''01ARZ3'',
               expiration = Some (ExpString ''5000''), rest = [(''persistent'', ''true'')]\<rparr>))
   \<and> run_handler listeners ReplyHandler
        (fst (snd (call connected ''ping'' ''data'' (Some 0) ''01ARZ3'' parse caller_heap)))
        (Some reply) =
       (Returned (),
        connected\<lparr>responses := Map.empty,
          trace := trace connected @
           [Chan 7 (Publish ''g'' ''ping'' ''data''
              \<lparr>replyTo = Some ''amq.gen-1'', correlationId = Some ''01ARZ3'',
               expiration = Some (ExpString ''5000''), rest = [(''persistent'', ''true'')]\<rparr>),
            Settle ''01ARZ3'' ''pong'']\<rparr>)
   \<and> connect fresh (Url ''localhost'') None [Inr 1] transport = (Some (Resolved 1), connected)
   \<and> callback connected = Some ''amq.gen-1''
   \<and> Chan 7 (Consume ''amq.gen-1'' ReplyHandler (Some [(''noAck'', ''true'')]))
        \<in> set (trace connected)"
proof -
  note t = call_publishes_and_correlates [OF connected_channel,
      of "''ping''" "''data''" "Some 0" "''01ARZ3''" parse caller_heap empty_options listeners]
  have opts: "object_assign (caller_heap 0) (callback connected) ''01ARZ3'' =
      \<lparr>replyTo = Some ''amq.gen-1'', correlationId = Some ''01ARZ3'',
       expiration = Some (ExpString ''5000''), rest = [(''persistent'', ''true'')]\<rparr>"
    by (simp add: object_assign_def caller_heap_def connected_eq)
  have win: "expiration_window parse
      \<lparr>replyTo = Some ''amq.gen-1'', correlationId = Some ''01ARZ3'',
       expiration = Some (ExpString ''5000''), rest = [(''persistent'', ''true'')]\<rparr> = Some (Number 5000)"
    by (simp add: expiration_window_def parse_def)
  have f: "group connected = ''g''" "serialize connected = id" "deserialize connected = id"
    "responses connected = Map.empty"
    by (simp_all add: connected_eq fresh_def new_amqp_def)
  have m: "correlationId (properties reply) = Some ''01ARZ3''" "content reply = ''pong''"
    by (simp_all add: reply_def)
  have c: "connect fresh (Url ''localhost'') None [Inr 1] transport = (Some (Resolved 1), connected)"
    by (simp add: connected_def connect_def transport_def Let_def)
  have first: "call connected ''ping'' ''data'' (Some 0) ''01ARZ3'' parse caller_heap =
      (Returned ''01ARZ3'',
       connected\<lparr>responses := [''01ARZ3'' \<mapsto> Some (Number 5000)],
         trace := trace connected @
           [Chan 7 (Publish ''g'' ''ping'' ''data''
              \<lparr>replyTo = Some ''amq.gen-1'', correlationId = Some ''01ARZ3'',
               expiration = Some (ExpString ''5000''), rest = [(''persistent'', ''true'')]\<rparr>)]\<rparr>,
       caller_heap(0 := \<lparr>replyTo = Some ''amq.gen-1'', correlationId = Some ''01ARZ3'',
               expiration = Some (ExpString ''5000''), rest = [(''persistent'', ''true'')]\<rparr>))"
    using t by (simp add: opts win f)
  have second: "run_handler listeners ReplyHandler
        (fst (snd (call connected ''ping'' ''data'' (Some 0) ''01ARZ3'' parse caller_heap)))
        (Some reply) =
       (Returned (),
        connected\<lparr>responses := Map.empty,
          trace := trace connected @
           [Chan 7 (Publish ''g'' ''ping'' ''data''
              \<lparr>replyTo = Some ''amq.gen-1'', correlationId = Some ''01ARZ3'',
               expiration = Some (ExpString ''5000''), rest = [(''persistent'', ''true'')]\<rparr>),
            Settle ''01ARZ3'' ''pong'']\<rparr>)"
  proof -
    from t have "\<forall>msg. correlationId (properties msg) = Some ''01ARZ3'' \<longrightarrow>
          run_handler listeners ReplyHandler
            (fst (snd (call connected ''ping'' ''data'' (Some 0) ''01ARZ3'' parse caller_heap))) (Some msg) =
            (Returned (),
             connected\<lparr>responses := (responses connected)(''01ARZ3'' := None),
               trace := trace connected @
                 [Chan 7 (Publish (group connected) ''ping'' (serialize connected ''data'')
                    (object_assign (case Some 0 of None \<Rightarrow> empty_options | Some r \<Rightarrow> caller_heap r)
                       (callback connected) ''01ARZ3'')),
                  Settle ''01ARZ3'' (deserialize connected (content msg))]\<rparr>)"
      by blast
    then show ?thesis
      using m by (simp add: opts f)
  qed
  have third: "callback connected = Some ''amq.gen-1''"
    "Chan 7 (Consume ''amq.gen-1'' ReplyHandler (Some [(''noAck'', ''true'')])) \<in> set (trace connected)"
    by (simp_all add: connected_eq)
  show ?thesis
    using connected_channel first second c third by simp
qed

text \<open>
  Claim C10. \<^verbatim>\<open>call\<close> writes into the options object its caller passed: afterwards that
  object has \<open>replyTo\<close> set to the broker's callback queue and \<open>correlationId\<close> set to
  the generated identifier, its other fields are as before, and no other object has
  changed. This holds whether \<^verbatim>\<open>publish\<close> then succeeds or throws.
\<close>
theorem call_writes_callers_options:
  "snd (snd (call b method d (Some r) c parseInt h)) =
      h(r := (h r)\<lparr>replyTo := callback b, correlationId := Some c\<rparr>)
   \<and> expiration (snd (snd (call b method d (Some r) c parseInt h)) r) = expiration (h r)
   \<and> rest (snd (snd (call b method d (Some r) c parseInt h)) r) = rest (h r)
   \<and> snd (snd (call b method d None c parseInt h)) = h"
  by (simp add: call_heap object_assign_def)

theorem call_writes_callers_options_witness:
  "snd (snd (call connected ''ping'' ''data'' (Some 0) ''01ARZ3'' parse caller_heap)) 0 =
      \<lparr>replyTo = Some ''amq.gen-1'', correlationId = Some ''01ARZ3'',
       expiration = Some (ExpString ''5000''), rest = [(''persistent'', ''true'')]\<rparr>
   \<and> snd (snd (call fresh ''ping'' ''data'' (Some 0) ''01ARZ3'' parse caller_heap)) 0 =
      \<lparr>replyTo = None, correlationId = Some ''01ARZ3'',
       expiration = Some (ExpString ''5000''), rest = [(''persistent'', ''true'')]\<rparr>
   \<and> fst (call fresh ''ping'' ''data'' (Some 0) ''01ARZ3'' parse caller_heap) =
      Threw (Error ''no available amqp channel'')"
proof -
  have "fst (call fresh ''ping'' ''data'' (Some 0) ''01ARZ3'' parse caller_heap) =
      Threw (Error ''no available amqp channel'')"
    by (simp add: call_def Let_def publish_def amqp_channel_def awaited_def fresh_def new_amqp_def)
  then show ?thesis
    using call_writes_callers_options [of connected "''ping''" "''data''" 0 "''01ARZ3''" parse caller_heap]
      call_writes_callers_options [of fresh "''ping''" "''data''" 0 "''01ARZ3''" parse caller_heap]
    by (simp add: caller_heap_def connected_eq fresh_def new_amqp_def)
qed

end
